theory Spec2Isabelle
  imports Main "HOL-Library.AList"
begin

section \<open>Data model\<close>

text \<open>
  A prompt is a Python dict read from JSON. The controller reads it only through
  \<^verbatim>\<open>prompt.get('name', ...)\<close> and \<^verbatim>\<open>prompt.get('content', '')\<close> and compares
  prompts by value (\<^verbatim>\<open>prompt in active_prompts\<close>), so a prompt is a record whose
  \<open>name\<close> and \<open>content\<close> keys may be missing, together with its origin.
\<close>

datatype origin = Extracted | UserCreated

record prompt =
  name :: "string option"
  content :: "string option"
  origin :: origin

text \<open>\<^verbatim>\<open>prompt.get('content', '')\<close>\<close>

definition get_content :: "prompt \<Rightarrow> string" where
  "get_content p = (case content p of None \<Rightarrow> [] | Some s \<Rightarrow> s)"

text \<open>
  The messages of the result tuples are non-ASCII format strings. A message is kept as
  an ASCII tag naming the template, with the values formatted into it.
\<close>

datatype arg = S string | I int | IL "int list" | Unnamed

datatype message = Msg string "arg list"


text \<open>
  The exceptions caught by \<^verbatim>\<open>except Exception\<close>. Which one is raised never matters to
  the controller: every handler answers with a fixed tuple.
\<close>

datatype exn = IndexError | KeyError | OSError | TypeError | ValueError

subsection \<open>The three managers\<close>

text \<open>
  The classes \<^verbatim>\<open>PresetsManager\<close>, \<^verbatim>\<open>PromptsManager\<close> and \<^verbatim>\<open>GroupsManager\<close> are
  imported by \<^verbatim>\<open>core/controller.py\<close> but their modules are not part of the sources at
  hand. Their state is a record each: the attributes the controller reads and writes
  directly (\<open>presets\<close>, \<open>active_prompts\<close>, \<open>prompt_groups\<close>), and what the specification
  says they keep besides (the prefix of each preset, the extracted store on disk, the
  persisted activation markers and group files). Dicts are association lists in
  insertion order.
\<close>

type_synonym groups = "(string \<times> int list) list"

record presets_manager =
  presets :: "(string \<times> prompt list) list"
  prefixes :: "(string \<times> string) list"
  output_store :: "(string \<times> prompt list \<times> string) list"

record prompts_manager =
  active_prompts :: "prompt list"
  activation_files :: "(string \<times> prompt list) list"

record groups_manager =
  prompt_groups :: groups
  group_files :: "(string \<times> groups) list"

record controller =
  current_preset_name :: string
  presets_manager :: presets_manager
  prompts_manager :: prompts_manager
  groups_manager :: groups_manager

text \<open>
  The methods of the managers that the controller calls are parameters of the model:
  each may raise, a query reads its manager and a command returns its manager updated.
  A method can reach only the object it belongs to; the three \<^verbatim>\<open>PromptsManager\<close>
  methods that are handed the prompt list of the \<^verbatim>\<open>PresetsManager\<close> by reference
  (\<open>add_prompt_to_preset\<close>, \<open>update_prompt\<close>, \<open>delete_prompt\<close>) act on both.
\<close>

record managers =
  presets_load_presets :: "presets_manager \<Rightarrow> (exn + unit) \<times> presets_manager"
  presets_extract_prompts :: "presets_manager \<Rightarrow> (exn + bool) \<times> presets_manager"
  presets_get_preset_list :: "presets_manager \<Rightarrow> exn + string list"
  presets_get_prompts :: "string \<Rightarrow> presets_manager \<Rightarrow> exn + prompt list"
  presets_get_prefix :: "string \<Rightarrow> presets_manager \<Rightarrow> exn + string"
  presets_create_preset :: "string \<Rightarrow> presets_manager \<Rightarrow> (exn + bool) \<times> presets_manager"
  prompts_activate_prompts ::
    "prompt list \<Rightarrow> int list \<Rightarrow> prompts_manager \<Rightarrow> (exn + prompt list) \<times> prompts_manager"
  prompts_deactivate_prompt ::
    "int \<Rightarrow> prompts_manager \<Rightarrow> (exn + prompt option) \<times> prompts_manager"
  prompts_deactivate_prompts_by_reference ::
    "prompt list \<Rightarrow> prompts_manager \<Rightarrow> (exn + prompt list) \<times> prompts_manager"
  prompts_clear_active_prompts :: "prompts_manager \<Rightarrow> (exn + int) \<times> prompts_manager"
  prompts_save_activation_state ::
    "string \<Rightarrow> prompt list \<Rightarrow> prompts_manager \<Rightarrow> (exn + unit) \<times> prompts_manager"
  prompts_load_activation_state ::
    "string \<Rightarrow> prompt list \<Rightarrow> prompts_manager \<Rightarrow> (exn + unit) \<times> prompts_manager"
  prompts_add_prompt_to_preset ::
    "string \<Rightarrow> string \<Rightarrow> string \<Rightarrow> presets_manager \<times> prompts_manager
      \<Rightarrow> (exn + prompt option) \<times> presets_manager \<times> prompts_manager"
  prompts_update_prompt ::
    "int \<Rightarrow> string \<Rightarrow> string \<Rightarrow> string \<Rightarrow> prompt list \<Rightarrow> presets_manager \<times> prompts_manager
      \<Rightarrow> (exn + prompt option) \<times> presets_manager \<times> prompts_manager"
  prompts_delete_prompt ::
    "int \<Rightarrow> string \<Rightarrow> prompt list \<Rightarrow> presets_manager \<times> prompts_manager
      \<Rightarrow> (exn + prompt option) \<times> presets_manager \<times> prompts_manager"
  groups_load_prompt_groups :: "string \<Rightarrow> groups_manager \<Rightarrow> (exn + unit) \<times> groups_manager"
  groups_get_prompt_group :: "string \<Rightarrow> groups_manager \<Rightarrow> exn + int list option"
  groups_get_all_groups :: "groups_manager \<Rightarrow> exn + groups"
  groups_create_prompt_group ::
    "string \<Rightarrow> int list \<Rightarrow> string \<Rightarrow> prompt list \<Rightarrow> groups_manager
      \<Rightarrow> (exn + bool) \<times> groups_manager"
  groups_update_prompt_group ::
    "string \<Rightarrow> int list \<Rightarrow> string \<Rightarrow> prompt list \<Rightarrow> groups_manager
      \<Rightarrow> (exn + bool) \<times> groups_manager"
  groups_delete_prompt_group ::
    "string \<Rightarrow> string \<Rightarrow> groups_manager \<Rightarrow> (exn + bool) \<times> groups_manager"

section \<open>Control flow: statements that may raise\<close>

text \<open>
  A method body takes the controller and returns the controller as it has been mutated
  together with either the value returned or the exception raised. Python does not roll
  back: the mutations made before a raise stay.
\<close>

type_synonym ('s, 'a) py = "'s \<Rightarrow> (exn + 'a) \<times> 's"

definition returns :: "'a \<Rightarrow> ('s, 'a) py" where
  "returns a s = (Inr a, s)"

definition and_then :: "('s, 'a) py \<Rightarrow> ('a \<Rightarrow> ('s, 'b) py) \<Rightarrow> ('s, 'b) py" where
  "and_then m f s = (case m s of (Inl e, s') \<Rightarrow> (Inl e, s') | (Inr a, s') \<Rightarrow> f a s')"

text \<open>\<^verbatim>\<open>try: ... except Exception: return d\<close>\<close>

definition try_except :: "('s, 'a) py \<Rightarrow> 'a \<Rightarrow> ('s, 'a) py" where
  "try_except m d s = (case m s of (Inl e, s') \<Rightarrow> (Inr d, s') | (Inr a, s') \<Rightarrow> (Inr a, s'))"

definition ask_presets :: "(presets_manager \<Rightarrow> exn + 'a) \<Rightarrow> (controller, 'a) py" where
  "ask_presets q c = (q (presets_manager c), c)"

definition ask_groups :: "(groups_manager \<Rightarrow> exn + 'a) \<Rightarrow> (controller, 'a) py" where
  "ask_groups q c = (q (groups_manager c), c)"

definition on_presets :: "(presets_manager, 'a) py \<Rightarrow> (controller, 'a) py" where
  "on_presets m c = (case m (presets_manager c) of (r, x) \<Rightarrow> (r, c\<lparr>presets_manager := x\<rparr>))"

definition on_prompts :: "(prompts_manager, 'a) py \<Rightarrow> (controller, 'a) py" where
  "on_prompts m c = (case m (prompts_manager c) of (r, x) \<Rightarrow> (r, c\<lparr>prompts_manager := x\<rparr>))"

definition on_groups :: "(groups_manager, 'a) py \<Rightarrow> (controller, 'a) py" where
  "on_groups m c = (case m (groups_manager c) of (r, x) \<Rightarrow> (r, c\<lparr>groups_manager := x\<rparr>))"

definition on_presets_and_prompts ::
  "(presets_manager \<times> prompts_manager, 'a) py \<Rightarrow> (controller, 'a) py" where
  "on_presets_and_prompts m c =
     (case m (presets_manager c, prompts_manager c) of
        (r, x, y) \<Rightarrow> (r, c\<lparr>presets_manager := x, prompts_manager := y\<rparr>))"

section \<open>The controller\<close>

subsection \<open>Getters\<close>

definition get_preset_list :: "managers \<Rightarrow> (controller, string list) py" where
  "get_preset_list M = ask_presets (presets_get_preset_list M)"

definition get_current_preset_name :: "(controller, string) py" where
  "get_current_preset_name c = returns (current_preset_name c) c"

definition get_current_prompts :: "managers \<Rightarrow> (controller, prompt list) py" where
  "get_current_prompts M c =
     (if current_preset_name c = [] then returns [] c
      else ask_presets (presets_get_prompts M (current_preset_name c)) c)"

definition get_current_prefix :: "managers \<Rightarrow> (controller, string) py" where
  "get_current_prefix M c =
     (if current_preset_name c = [] then returns [] c
      else ask_presets (presets_get_prefix M (current_preset_name c)) c)"

definition get_active_prompts :: "(controller, prompt list) py" where
  "get_active_prompts c = returns (active_prompts (prompts_manager c)) c"

subsection \<open>The request transform\<close>

text \<open>\<^verbatim>\<open>sep.join(parts)\<close>\<close>

fun str_join :: "string \<Rightarrow> string list \<Rightarrow> string" where
  "str_join sep [] = []"
| "str_join sep [x] = x"
| "str_join sep (x # y # ys) = x @ sep @ str_join sep (y # ys)"

definition blank_line :: string where
  "blank_line = [CHR 0x0A, CHR 0x0A]"

text \<open>The loop over the active prompts: a content is appended when it is truthy.\<close>

fun collect_contents :: "prompt list \<Rightarrow> string list \<Rightarrow> string list" where
  "collect_contents [] parts = parts"
| "collect_contents (p # ps) parts =
     (let content = get_content p
      in collect_contents ps (if content \<noteq> [] then parts @ [content] else parts))"

text \<open>
  \<open>process_llm_request\<close> has no exception handler of its own: what \<open>get_current_prefix\<close>
  raises leaves the method. (Its \<^verbatim>\<open>def\<close> line is indented by three blanks in the
  source, one fewer than its siblings; it is modelled as the method of the class that it
  is written to be.)
\<close>

definition process_llm_request ::
  "managers \<Rightarrow> string \<Rightarrow> string \<Rightarrow> (controller, string \<times> string) py" where
  "process_llm_request M system_prompt user_prompt =
     and_then get_active_prompts (\<lambda>active_prompts.
     and_then (get_current_prefix M) (\<lambda>current_prefix.
       let modified_user = user_prompt;
           parts_to_prepend = (if current_prefix \<noteq> [] then [current_prefix] else []);
           parts_to_prepend = collect_contents active_prompts parts_to_prepend;
           modified_system =
             (if parts_to_prepend \<noteq> [] then
                (let prepend_str = str_join blank_line parts_to_prepend
                 in if system_prompt \<noteq> [] then prepend_str @ blank_line @ system_prompt
                    else prepend_str)
              else system_prompt)
       in returns (modified_system, modified_user)))"

subsection \<open>Attribute reads and writes\<close>

definition set_current_preset_name :: "string \<Rightarrow> (controller, unit) py" where
  "set_current_preset_name n c = (Inr (), c\<lparr>current_preset_name := n\<rparr>)"

definition read_presets :: "(controller, (string \<times> prompt list) list) py" where
  "read_presets c = returns (presets (presets_manager c)) c"

definition read_prompt_groups :: "(controller, groups) py" where
  "read_prompt_groups c = returns (prompt_groups (groups_manager c)) c"

definition set_prompt_groups :: "groups \<Rightarrow> (controller, unit) py" where
  "set_prompt_groups g c =
     (Inr (), c\<lparr>groups_manager := (groups_manager c)\<lparr>prompt_groups := g\<rparr>\<rparr>)"

subsection \<open>Construction\<close>

text \<open>
  \<open>_initialize\<close> logs what it catches and raises it again, so in the model it has no
  handler. Creating the two directories is outside the model.
\<close>

definition initialize :: "managers \<Rightarrow> (controller, unit) py" where
  "initialize M =
     and_then (on_presets (presets_load_presets M)) (\<lambda>_.
     and_then (ask_presets (presets_get_preset_list M)) (\<lambda>preset_list.
       if preset_list \<noteq> [] then
         and_then (set_current_preset_name (hd preset_list)) (\<lambda>_.
         and_then get_current_preset_name (\<lambda>cur.
         and_then (on_groups (groups_load_prompt_groups M cur)) (\<lambda>_.
         and_then (get_current_prompts M) (\<lambda>current_prompts.
         on_prompts (prompts_load_activation_state M cur current_prompts)))))
       else returns ()))"

subsection \<open>Presets\<close>

definition switch_preset :: "managers \<Rightarrow> int \<Rightarrow> (controller, bool \<times> message) py" where
  "switch_preset M index =
     try_except
       (and_then (get_preset_list M) (\<lambda>presets.
          if presets = [] then returns (False, Msg ''no presets available'' [])
          else if 0 \<le> index \<and> index < int (length presets) then
            and_then (on_prompts (prompts_clear_active_prompts M)) (\<lambda>_.
            and_then (set_current_preset_name (presets ! nat index)) (\<lambda>_.
            and_then get_current_preset_name (\<lambda>cur.
            and_then (on_groups (groups_load_prompt_groups M cur)) (\<lambda>_.
            and_then (get_current_prompts M) (\<lambda>current_prompts.
            and_then (on_prompts (prompts_load_activation_state M cur current_prompts)) (\<lambda>_.
            returns (True, Msg ''switched to preset'' [S cur])))))))
          else returns (False, Msg ''invalid preset index'' [I index])))
       (False, Msg ''internal error while switching preset'' [])"


definition refresh_prompts ::
  "managers \<Rightarrow> (controller, bool \<times> message \<times> (string \<times> int) list) py" where
  "refresh_prompts M =
     try_except
       (and_then (on_presets (presets_extract_prompts M)) (\<lambda>extracted.
          if extracted then
            and_then (on_presets (presets_load_presets M)) (\<lambda>_.
            and_then (on_prompts (prompts_clear_active_prompts M)) (\<lambda>_.
            and_then (get_preset_list M) (\<lambda>preset_list.
            and_then
              (if preset_list \<noteq> [] then
                 and_then (set_current_preset_name (hd preset_list)) (\<lambda>_.
                 and_then get_current_preset_name (\<lambda>cur.
                 on_groups (groups_load_prompt_groups M cur)))
               else set_current_preset_name []) (\<lambda>_.
            and_then read_presets (\<lambda>loaded.
              let preset_count = int (length loaded);
                  prompt_count = sum_list (map (\<lambda>prompts. int (length prompts)) (map snd loaded));
                  stats = [(''preset_count'', preset_count), (''prompt_count'', prompt_count)]
              in if preset_count > 0 then
                   returns (True, Msg ''reloaded presets and prompts'' [I preset_count, I prompt_count],
                            stats)
                 else returns (True, Msg ''no preset found, check the preset files'' [], stats))))))
          else returns (False, Msg ''extraction failed, see the log'' [], [])))
       (False, Msg ''internal error while refreshing prompts'' [], [])"

subsection \<open>Activation\<close>



definition activate_prompt_group ::
  "managers \<Rightarrow> string \<Rightarrow> (controller, bool \<times> message \<times> prompt list) py" where
  "activate_prompt_group M group_name =
     try_except
       (and_then (get_current_prompts M) (\<lambda>all_prompts.
          if all_prompts = [] then
            returns (False, Msg ''current preset has no prompts'' [], [])
          else if group_name = [] then
            returns (False, Msg ''group name must not be empty'' [], [])
          else
            and_then (ask_groups (groups_get_prompt_group M group_name)) (\<lambda>indices.
              case indices of
                None \<Rightarrow> returns (False, Msg ''group not found'' [S group_name], [])
              | Some indices \<Rightarrow>
                  if indices = [] then
                    returns (False, Msg ''group is empty'' [S group_name], [])
                  else
                    and_then (on_prompts (prompts_activate_prompts M all_prompts indices))
                      (\<lambda>newly_active.
                    if newly_active \<noteq> [] then
                      returns (True, Msg ''activated prompts of group''
                                       [S group_name, I (int (length newly_active))],
                               newly_active)
                    else
                      returns (True, Msg ''prompts of group are all active already''
                                       [S group_name], [])))))
       (False, Msg ''internal error while activating group'' [S group_name], [])"

subsection \<open>Deactivation\<close>


text \<open>
  The loop \<^verbatim>\<open>for idx in valid_indices\<close> of \<open>deactivate_multiple_prompts\<close>, with the
  list \<open>deactivated_prompts\<close> it appends to.
\<close>

fun deactivate_each ::
  "managers \<Rightarrow> int list \<Rightarrow> prompt list \<Rightarrow> (controller, prompt list) py" where
  "deactivate_each M [] deactivated_prompts = returns deactivated_prompts"
| "deactivate_each M (idx # rest) deactivated_prompts =
     and_then (on_prompts (prompts_deactivate_prompt M idx)) (\<lambda>removed_prompt.
       deactivate_each M rest
         (case removed_prompt of
            Some removed \<Rightarrow> deactivated_prompts @ [removed]
          | None \<Rightarrow> deactivated_prompts))"

definition deactivate_multiple_prompts ::
  "managers \<Rightarrow> int list \<Rightarrow> (controller, bool \<times> message \<times> prompt list) py" where
  "deactivate_multiple_prompts M indices =
     try_except
       (if indices = [] then returns (False, Msg ''index list must not be empty'' [], [])
        else
          and_then get_active_prompts (\<lambda>active.
            if active = [] then returns (False, Msg ''no prompt is active'' [], [])
            else
              (let max_index = int (length active) - 1;
                   valid_indices = filter (\<lambda>idx. 0 \<le> idx \<and> idx \<le> max_index) indices;
                   invalid_indices = filter (\<lambda>idx. \<not> (0 \<le> idx \<and> idx \<le> max_index)) indices
               in if invalid_indices \<noteq> [] \<and> valid_indices = [] then
                    returns (False, Msg ''invalid active prompt indices, valid range is 0 to''
                                      [IL invalid_indices, I max_index], [])
                  else
                    (let valid_indices = rev (sort valid_indices) in
                     and_then (deactivate_each M valid_indices []) (\<lambda>deactivated_prompts.
                       if deactivated_prompts \<noteq> [] then
                         returns (True, Msg ''deactivated prompts''
                                          [I (int (length deactivated_prompts))],
                                  deactivated_prompts)
                       else
                         returns (False, Msg ''could not deactivate any prompt'' [], []))))))
       (False, Msg ''internal error while deactivating prompts'' [], [])"

definition deactivate_prompt_group ::
  "managers \<Rightarrow> string \<Rightarrow> (controller, bool \<times> message \<times> prompt list) py" where
  "deactivate_prompt_group M group_name =
     try_except
       (and_then get_current_preset_name (\<lambda>cur.
          if cur = [] then returns (False, Msg ''no preset selected'' [], [])
          else if group_name = [] then
            returns (False, Msg ''group name must not be empty'' [], [])
          else
            and_then (ask_groups (groups_get_prompt_group M group_name)) (\<lambda>indices.
              case indices of
                None \<Rightarrow> returns (False, Msg ''group not found'' [S group_name], [])
              | Some indices \<Rightarrow>
                  if indices = [] then
                    returns (True, Msg ''group is empty, nothing to deactivate'' [S group_name], [])
                  else
                    and_then (get_current_prompts M) (\<lambda>all_prompts.
                      if all_prompts = [] then
                        returns (False, Msg ''current preset has no prompts'' [], [])
                      else
                        (let max_index = int (length all_prompts) - 1;
                             prompts_to_deactivate =
                               map (\<lambda>idx. all_prompts ! nat idx)
                                 (filter (\<lambda>idx. 0 \<le> idx \<and> idx \<le> max_index) indices)
                         in if prompts_to_deactivate = [] then
                              returns (False, Msg ''indices of group are invalid'' [S group_name], [])
                            else
                              and_then
                                (on_prompts
                                   (prompts_deactivate_prompts_by_reference M prompts_to_deactivate))
                                (\<lambda>deactivated_prompts.
                              if deactivated_prompts \<noteq> [] then
                                returns (True, Msg ''deactivated prompts of group''
                                                 [S group_name,
                                                  I (int (length deactivated_prompts))],
                                         deactivated_prompts)
                              else
                                returns (True, Msg ''no prompt of group is active''
                                                 [S group_name], [])))))))
       (False, Msg ''internal error while deactivating group'' [S group_name], [])"


subsection \<open>Editing the prompts of the current preset\<close>




subsection \<open>Groups\<close>

definition get_prompt_groups :: "managers \<Rightarrow> (controller, groups) py" where
  "get_prompt_groups M = ask_groups (groups_get_all_groups M)"

definition get_prompt_group :: "managers \<Rightarrow> string \<Rightarrow> (controller, int list option) py" where
  "get_prompt_group M n = ask_groups (groups_get_prompt_group M n)"




subsection \<open>Shutdown\<close>

definition terminate :: "managers \<Rightarrow> (controller, unit) py" where
  "terminate M = and_then (on_prompts (prompts_clear_active_prompts M)) (\<lambda>_. returns ())"

section \<open>The managers, from the specification\<close>

text \<open>
  The definitions of this section stand for the methods of the three manager classes,
  whose modules are missing. Each follows the contract that the specification gives for
  it. Two collaborators stay parameters: \<open>extract\<close>, the extraction
  (\<^verbatim>\<open>extract() -> bool\<close>, which rewrites the store on disk), and \<open>write_ok\<close>, whether
  \<^verbatim>\<open>write_json\<close> succeeds for the files of a preset.
\<close>

type_synonym store = "(string \<times> prompt list \<times> string) list"

subsection \<open>PresetStore\<close>

text \<open>Modelled from the spec: \<^verbatim>\<open>PresetsManager.load_presets\<close> is missing; \<open>load()\<close> reads
  the mapping from preset name to prompts and prefix that the extraction left on disk.\<close>

definition spec_load_presets :: "(presets_manager, unit) py" where
  "spec_load_presets pm =
     (Inr (), pm\<lparr>presets := map (\<lambda>(n, ps, pre). (n, ps)) (output_store pm),
                 prefixes := map (\<lambda>(n, ps, pre). (n, pre)) (output_store pm)\<rparr>)"

text \<open>Modelled from the spec: \<^verbatim>\<open>PresetsManager.extract_prompts\<close> is missing; it runs the
  external extraction, which reports success and populates the durable store.\<close>

definition spec_extract_prompts :: "(store \<Rightarrow> bool \<times> store) \<Rightarrow> (presets_manager, bool) py" where
  "spec_extract_prompts extract pm =
     (case extract (output_store pm) of (ok, st) \<Rightarrow> (Inr ok, pm\<lparr>output_store := st\<rparr>))"

text \<open>Modelled from the spec: \<^verbatim>\<open>PresetsManager.get_preset_list\<close> is missing;
  \<open>list_preset_names()\<close> is the ordered sequence of preset names.\<close>

definition spec_get_preset_list :: "presets_manager \<Rightarrow> exn + string list" where
  "spec_get_preset_list pm = Inr (map fst (presets pm))"

text \<open>Modelled from the spec: \<^verbatim>\<open>PresetsManager.get_prompts\<close> is missing; \<open>get_prompts(name)\<close>
  is the ordered prompt list, empty if the preset is unknown.\<close>

definition spec_get_prompts :: "string \<Rightarrow> presets_manager \<Rightarrow> exn + prompt list" where
  "spec_get_prompts n pm = Inr (case map_of (presets pm) n of None \<Rightarrow> [] | Some ps \<Rightarrow> ps)"

text \<open>Modelled from the spec: \<^verbatim>\<open>PresetsManager.get_prefix\<close> is missing; \<open>get_prefix(name)\<close>
  is the prefix text of the preset (empty for a preset without one).\<close>

definition spec_get_prefix :: "string \<Rightarrow> presets_manager \<Rightarrow> exn + string" where
  "spec_get_prefix n pm = Inr (case map_of (prefixes pm) n of None \<Rightarrow> [] | Some pre \<Rightarrow> pre)"

text \<open>Modelled from the spec: \<^verbatim>\<open>PresetsManager.create_preset\<close> is missing;
  \<open>create_preset(name)\<close> fails if the name already exists or is empty.\<close>

definition spec_create_preset :: "string \<Rightarrow> (presets_manager, bool) py" where
  "spec_create_preset n pm =
     (if n = [] \<or> n \<in> set (map fst (presets pm)) then (Inr False, pm)
      else (Inr True, pm\<lparr>presets := presets pm @ [(n, [])],
                          prefixes := prefixes pm @ [(n, [])]\<rparr>))"

subsection \<open>ActivationTracker\<close>

text \<open>Modelled from the spec: \<^verbatim>\<open>PromptsManager.activate_prompts\<close> is missing;
  \<open>activate(all_prompts, indices)\<close> appends, in input order, the prompt of each index
  whose value is not in the active set yet, and returns what it appended. The
  specification leaves the range check to the caller and says nothing about an index
  outside \<open>0 \<le> idx < len\<close>: the model raises there, as reading \<^verbatim>\<open>all_prompts[idx]\<close>
  past the end does, so that no result below rests on a silent skip.\<close>

fun spec_activate_loop ::
  "prompt list \<Rightarrow> int list \<Rightarrow> prompt list \<Rightarrow> (prompts_manager, prompt list) py" where
  "spec_activate_loop all_prompts [] newly_active a = (Inr newly_active, a)"
| "spec_activate_loop all_prompts (idx # rest) newly_active a =
     (if 0 \<le> idx \<and> idx < int (length all_prompts) then
        (let p = all_prompts ! nat idx in
         if p \<in> set (active_prompts a) then spec_activate_loop all_prompts rest newly_active a
         else spec_activate_loop all_prompts rest (newly_active @ [p])
                (a\<lparr>active_prompts := active_prompts a @ [p]\<rparr>))
      else (Inl IndexError, a))"

definition spec_activate_prompts ::
  "prompt list \<Rightarrow> int list \<Rightarrow> (prompts_manager, prompt list) py" where
  "spec_activate_prompts all_prompts indices = spec_activate_loop all_prompts indices []"

text \<open>Modelled from the spec: \<^verbatim>\<open>PromptsManager.deactivate_prompt\<close> is missing;
  \<open>deactivate(active_list_index)\<close> removes and returns the entry at that position of
  the active set, or returns none.\<close>

definition spec_deactivate_prompt :: "int \<Rightarrow> (prompts_manager, prompt option) py" where
  "spec_deactivate_prompt idx a =
     (if 0 \<le> idx \<and> idx < int (length (active_prompts a)) then
        (Inr (Some (active_prompts a ! nat idx)),
         a\<lparr>active_prompts :=
              take (nat idx) (active_prompts a) @ drop (Suc (nat idx)) (active_prompts a)\<rparr>)
      else (Inr None, a))"

text \<open>Modelled from the spec: \<^verbatim>\<open>PromptsManager.deactivate_prompts_by_reference\<close> is
  missing; \<open>deactivate_by_value(prompt-values)\<close> removes the entries that match one of
  the values and returns the removed entries.\<close>

definition spec_deactivate_prompts_by_reference ::
  "prompt list \<Rightarrow> (prompts_manager, prompt list) py" where
  "spec_deactivate_prompts_by_reference targets a =
     (Inr (filter (\<lambda>p. p \<in> set targets) (active_prompts a)),
      a\<lparr>active_prompts := filter (\<lambda>p. p \<notin> set targets) (active_prompts a)\<rparr>)"

text \<open>Modelled from the spec: \<^verbatim>\<open>PromptsManager.clear_active_prompts\<close> is missing;
  \<open>clear()\<close> empties the active set and returns the count removed.\<close>

definition spec_clear_active_prompts :: "(prompts_manager, int) py" where
  "spec_clear_active_prompts a =
     (Inr (int (length (active_prompts a))), a\<lparr>active_prompts := []\<rparr>)"

text \<open>Modelled from the spec: \<^verbatim>\<open>PromptsManager.save_activation_state\<close> is missing;
  \<open>save(preset_name, all_prompts)\<close> snapshots the active set as the persisted markers
  of the preset. A marker holds the fields that re-match a prompt by value, so it is
  the prompt value. A failed write leaves the file as it was.\<close>

definition spec_save_activation_state ::
  "(string \<Rightarrow> bool) \<Rightarrow> string \<Rightarrow> prompt list \<Rightarrow> (prompts_manager, unit) py" where
  "spec_save_activation_state write_ok preset_name all_prompts a =
     (Inr (),
      if write_ok preset_name then
        a\<lparr>activation_files := AList.update preset_name (active_prompts a) (activation_files a)\<rparr>
      else a)"

text \<open>Modelled from the spec: \<^verbatim>\<open>PromptsManager.load_activation_state\<close> is missing;
  \<open>load(preset_name, all_prompts)\<close> restores the active set by re-matching the
  persisted markers against \<open>all_prompts\<close> by value and drops the unmatched ones.\<close>

definition spec_load_activation_state ::
  "string \<Rightarrow> prompt list \<Rightarrow> (prompts_manager, unit) py" where
  "spec_load_activation_state preset_name all_prompts a =
     (Inr (),
      a\<lparr>active_prompts :=
           (case map_of (activation_files a) preset_name of
              None \<Rightarrow> []
            | Some markers \<Rightarrow> filter (\<lambda>m. m \<in> set all_prompts) markers)\<rparr>)"

subsection \<open>Prompt mutation\<close>

text \<open>The prompt list of a preset, written to memory and, when the write succeeds, to
  the store on disk.\<close>

definition store_prompts ::
  "(string \<Rightarrow> bool) \<Rightarrow> string \<Rightarrow> prompt list \<Rightarrow> presets_manager \<Rightarrow> presets_manager" where
  "store_prompts write_ok preset_name ps pm =
     (let pm' = pm\<lparr>presets := AList.update preset_name ps (presets pm)\<rparr>
      in if write_ok preset_name then
           pm'\<lparr>output_store :=
                 AList.map_entry preset_name (\<lambda>(old, pre). (ps, pre)) (output_store pm)\<rparr>
         else pm')"

text \<open>Modelled from the spec: \<^verbatim>\<open>PromptsManager.add_prompt_to_preset\<close> is missing; adding
  mutates the in-memory and persisted prompt list of the preset with a user-created
  prompt; a failed write is a failure outcome that leaves memory as mutated.\<close>

definition spec_add_prompt_to_preset ::
  "(string \<Rightarrow> bool) \<Rightarrow> string \<Rightarrow> string \<Rightarrow> string
    \<Rightarrow> (presets_manager \<times> prompts_manager, prompt option) py" where
  "spec_add_prompt_to_preset write_ok n text preset_name = (\<lambda>(pm, a).
     let added = \<lparr>name = Some n, content = Some text, origin = UserCreated\<rparr>;
         ps = (case map_of (presets pm) preset_name of None \<Rightarrow> [] | Some ps \<Rightarrow> ps)
     in (Inr (if write_ok preset_name then Some added else None),
         store_prompts write_ok preset_name (ps @ [added]) pm, a))"

text \<open>Modelled from the spec: \<^verbatim>\<open>PromptsManager.update_prompt\<close> is missing; updating
  refuses a prompt whose origin is extracted, and otherwise mutates the in-memory and
  persisted prompt list.\<close>

definition spec_update_prompt ::
  "(string \<Rightarrow> bool) \<Rightarrow> int \<Rightarrow> string \<Rightarrow> string \<Rightarrow> string \<Rightarrow> prompt list
    \<Rightarrow> (presets_manager \<times> prompts_manager, prompt option) py" where
  "spec_update_prompt write_ok index n text preset_name all_prompts = (\<lambda>(pm, a).
     if \<not> (0 \<le> index \<and> index < int (length all_prompts)) then (Inr None, pm, a)
     else if origin (all_prompts ! nat index) = Extracted then (Inr None, pm, a)
     else
       (let updated = (all_prompts ! nat index)\<lparr>name := Some n, content := Some text\<rparr>
        in (Inr (if write_ok preset_name then Some updated else None),
            store_prompts write_ok preset_name (all_prompts[nat index := updated]) pm, a)))"

text \<open>Modelled from the spec: \<^verbatim>\<open>PromptsManager.delete_prompt\<close> is missing; deleting
  refuses a prompt whose origin is extracted, and otherwise removes it from the
  in-memory and persisted prompt list, so that the later positions shift.\<close>

definition spec_delete_prompt ::
  "(string \<Rightarrow> bool) \<Rightarrow> int \<Rightarrow> string \<Rightarrow> prompt list
    \<Rightarrow> (presets_manager \<times> prompts_manager, prompt option) py" where
  "spec_delete_prompt write_ok index preset_name all_prompts = (\<lambda>(pm, a).
     if \<not> (0 \<le> index \<and> index < int (length all_prompts)) then (Inr None, pm, a)
     else if origin (all_prompts ! nat index) = Extracted then (Inr None, pm, a)
     else
       (Inr (if write_ok preset_name then Some (all_prompts ! nat index) else None),
        store_prompts write_ok preset_name
          (take (nat index) all_prompts @ drop (Suc (nat index)) all_prompts) pm, a))"

subsection \<open>GroupRegistry\<close>

text \<open>Deduplication that keeps the first occurrence of each index.\<close>

definition dedup :: "int list \<Rightarrow> int list" where
  "dedup xs = rev (remdups (rev xs))"

text \<open>The groups in memory are saved on every mutating call; a failed write is a
  failure outcome that leaves memory as mutated.\<close>

definition save_groups :: "(string \<Rightarrow> bool) \<Rightarrow> string \<Rightarrow> groups \<Rightarrow> (groups_manager, bool) py" where
  "save_groups write_ok preset_name g gm =
     (if write_ok preset_name then
        (Inr True, gm\<lparr>prompt_groups := g,
                      group_files := AList.update preset_name g (group_files gm)\<rparr>)
      else (Inr False, gm\<lparr>prompt_groups := g\<rparr>))"

text \<open>Modelled from the spec: \<^verbatim>\<open>GroupsManager.load_prompt_groups\<close> is missing;
  \<open>load(preset_name)\<close> reads the persisted groups of the preset.\<close>

definition spec_load_prompt_groups :: "string \<Rightarrow> (groups_manager, unit) py" where
  "spec_load_prompt_groups preset_name gm =
     (Inr (), gm\<lparr>prompt_groups :=
                   (case map_of (group_files gm) preset_name of None \<Rightarrow> [] | Some g \<Rightarrow> g)\<rparr>)"

text \<open>Modelled from the spec: \<^verbatim>\<open>GroupsManager.get_prompt_group\<close> is missing;
  \<open>get_group(name)\<close> is the index list of the group, or none when the group does not
  exist, which is distinct from an existing empty group.\<close>

definition spec_get_prompt_group :: "string \<Rightarrow> groups_manager \<Rightarrow> exn + int list option" where
  "spec_get_prompt_group n gm = Inr (map_of (prompt_groups gm) n)"

text \<open>Modelled from the spec: \<^verbatim>\<open>GroupsManager.get_all_groups\<close> is missing;
  \<open>get_all_groups()\<close> is the mapping from name to ordered indices of the loaded preset.\<close>

definition spec_get_all_groups :: "groups_manager \<Rightarrow> exn + groups" where
  "spec_get_all_groups gm = Inr (prompt_groups gm)"

definition in_range :: "prompt list \<Rightarrow> int \<Rightarrow> bool" where
  "in_range all_prompts idx \<longleftrightarrow> 0 \<le> idx \<and> idx < int (length all_prompts)"

text \<open>Modelled from the spec: \<^verbatim>\<open>GroupsManager.create_prompt_group\<close> is missing;
  \<open>create\<close> fails if the name exists for the preset, if an index is out of range, or
  when the write fails; it deduplicates the indices, keeping first occurrences.\<close>

definition spec_create_prompt_group ::
  "(string \<Rightarrow> bool) \<Rightarrow> string \<Rightarrow> int list \<Rightarrow> string \<Rightarrow> prompt list \<Rightarrow> (groups_manager, bool) py"
  where
  "spec_create_prompt_group write_ok n indices preset_name all_prompts gm =
     (if n \<in> set (map fst (prompt_groups gm)) then (Inr False, gm)
      else if list_ex (\<lambda>idx. \<not> in_range all_prompts idx) indices then (Inr False, gm)
      else save_groups write_ok preset_name (prompt_groups gm @ [(n, dedup indices)]) gm)"

text \<open>Modelled from the spec: \<^verbatim>\<open>GroupsManager.update_prompt_group\<close> is missing;
  \<open>update\<close> fails if the group does not exist or an index is invalid.\<close>

definition spec_update_prompt_group ::
  "(string \<Rightarrow> bool) \<Rightarrow> string \<Rightarrow> int list \<Rightarrow> string \<Rightarrow> prompt list \<Rightarrow> (groups_manager, bool) py"
  where
  "spec_update_prompt_group write_ok n indices preset_name all_prompts gm =
     (if n \<notin> set (map fst (prompt_groups gm)) then (Inr False, gm)
      else if list_ex (\<lambda>idx. \<not> in_range all_prompts idx) indices then (Inr False, gm)
      else save_groups write_ok preset_name
             (AList.update n (dedup indices) (prompt_groups gm)) gm)"

text \<open>Modelled from the spec: \<^verbatim>\<open>GroupsManager.delete_prompt_group\<close> is missing;
  \<open>delete(name, preset_name)\<close> removes the group and saves.\<close>

definition spec_delete_prompt_group ::
  "(string \<Rightarrow> bool) \<Rightarrow> string \<Rightarrow> string \<Rightarrow> (groups_manager, bool) py" where
  "spec_delete_prompt_group write_ok n preset_name gm =
     (if n \<notin> set (map fst (prompt_groups gm)) then (Inr False, gm)
      else save_groups write_ok preset_name (AList.delete n (prompt_groups gm)) gm)"

subsection \<open>The managers together\<close>

definition spec_managers :: "(store \<Rightarrow> bool \<times> store) \<Rightarrow> (string \<Rightarrow> bool) \<Rightarrow> managers" where
  "spec_managers extract write_ok =
     \<lparr>presets_load_presets = spec_load_presets,
      presets_extract_prompts = spec_extract_prompts extract,
      presets_get_preset_list = spec_get_preset_list,
      presets_get_prompts = spec_get_prompts,
      presets_get_prefix = spec_get_prefix,
      presets_create_preset = spec_create_preset,
      prompts_activate_prompts = spec_activate_prompts,
      prompts_deactivate_prompt = spec_deactivate_prompt,
      prompts_deactivate_prompts_by_reference = spec_deactivate_prompts_by_reference,
      prompts_clear_active_prompts = spec_clear_active_prompts,
      prompts_save_activation_state = spec_save_activation_state write_ok,
      prompts_load_activation_state = spec_load_activation_state,
      prompts_add_prompt_to_preset = spec_add_prompt_to_preset write_ok,
      prompts_update_prompt = spec_update_prompt write_ok,
      prompts_delete_prompt = spec_delete_prompt write_ok,
      groups_load_prompt_groups = spec_load_prompt_groups,
      groups_get_prompt_group = spec_get_prompt_group,
      groups_get_all_groups = spec_get_all_groups,
      groups_create_prompt_group = spec_create_prompt_group write_ok,
      groups_update_prompt_group = spec_update_prompt_group write_ok,
      groups_delete_prompt_group = spec_delete_prompt_group write_ok\<rparr>"

section \<open>Notions used to state the properties\<close>

text \<open>The segments of the prepend block: the prefix when it is not empty, then the
  contents of the active prompts that are not empty, in the order of the active set.\<close>

definition segments :: "string \<Rightarrow> prompt list \<Rightarrow> string list" where
  "segments prefix active =
     (if prefix \<noteq> [] then [prefix] else []) @ filter (\<lambda>s. s \<noteq> []) (map get_content active)"

text \<open>The system text in the words of the specification, where the content of every
  active prompt is a segment. It is compared with what \<open>process_llm_request\<close> computes.\<close>

definition claimed_system_text :: "string \<Rightarrow> prompt list \<Rightarrow> string \<Rightarrow> string" where
  "claimed_system_text prefix active system_text =
     (let block = (if prefix \<noteq> [] then [prefix] else []) @ map get_content active
      in if block = [] then system_text
         else if system_text = [] then str_join blank_line block
         else str_join blank_line (block @ [system_text]))"

definition with_active :: "prompt list \<Rightarrow> controller \<Rightarrow> controller" where
  "with_active ps c = c\<lparr>prompts_manager := (prompts_manager c)\<lparr>active_prompts := ps\<rparr>\<rparr>"

subsection \<open>A preset with three prompts\<close>

definition prompt_A :: prompt where
  "prompt_A = \<lparr>name = Some ''A'', content = Some ''alpha'', origin = Extracted\<rparr>"

text \<open>The second prompt has an empty content.\<close>

definition prompt_B :: prompt where
  "prompt_B = \<lparr>name = Some ''B'', content = Some [], origin = Extracted\<rparr>"

definition prompt_C :: prompt where
  "prompt_C = \<lparr>name = Some ''C'', content = Some ''gamma'', origin = UserCreated\<rparr>"

text \<open>Managers whose extraction succeeds and changes nothing and whose writes succeed.\<close>

definition plain_managers :: managers where
  "plain_managers = spec_managers (\<lambda>st. (True, st)) (\<lambda>preset_name. True)"


text \<open>A controller on the preset \<open>P\<close> with the prompts \<open>A\<close>, \<open>B\<close>, \<open>C\<close>, a given prefix,
  a given active set and given groups.\<close>

definition example_controller :: "string \<Rightarrow> prompt list \<Rightarrow> groups \<Rightarrow> controller" where
  "example_controller prefix active grps =
     \<lparr>current_preset_name = ''P'',
      presets_manager =
        \<lparr>presets = [(''P'', [prompt_A, prompt_B, prompt_C])],
         prefixes = [(''P'', prefix)],
         output_store = [(''P'', [prompt_A, prompt_B, prompt_C], prefix)]\<rparr>,
      prompts_manager = \<lparr>active_prompts = active, activation_files = []\<rparr>,
      groups_manager = \<lparr>prompt_groups = grps, group_files = [(''P'', grps)]\<rparr>\<rparr>"


text \<open>Managers whose extraction succeeds and leaves two presets on disk.\<close>

definition two_presets :: store where
  "two_presets = [(''Q'', [prompt_C], ''pre''), (''P'', [prompt_A, prompt_B], [])]"

definition reextracting_managers :: managers where
  "reextracting_managers = spec_managers (\<lambda>st. (True, two_presets)) (\<lambda>preset_name. True)"

text \<open>Managers whose extraction fails.\<close>

definition broken_extraction_managers :: managers where
  "broken_extraction_managers = spec_managers (\<lambda>st. (False, st)) (\<lambda>preset_name. True)"


section \<open>Properties\<close>

lemmas example_defs = example_controller_def plain_managers_def spec_managers_def
  prompt_A_def prompt_B_def prompt_C_def

lemmas py_defs = returns_def and_then_def try_except_def ask_presets_def ask_groups_def
  on_presets_def on_prompts_def on_groups_def on_presets_and_prompts_def

lemmas getter_defs = get_preset_list_def get_current_preset_name_def get_current_prompts_def
  get_current_prefix_def get_active_prompts_def

lemmas spec_defs = spec_load_presets_def spec_extract_prompts_def spec_get_preset_list_def
  spec_get_prompts_def spec_get_prefix_def spec_create_preset_def spec_activate_prompts_def
  spec_deactivate_prompt_def spec_deactivate_prompts_by_reference_def
  spec_clear_active_prompts_def spec_save_activation_state_def spec_load_activation_state_def
  spec_load_prompt_groups_def spec_get_prompt_group_def spec_get_all_groups_def

lemmas attribute_defs = set_current_preset_name_def read_presets_def read_prompt_groups_def
  set_prompt_groups_def

lemma get_current_prompts_query: "get_current_prompts M c = (fst (get_current_prompts M c), c)"
  by (simp add: getter_defs py_defs)

subsection \<open>The request transform\<close>

lemma collect_contents_eq:
  "collect_contents ps parts = parts @ filter (\<lambda>s. s \<noteq> []) (map get_content ps)"
  by (induction ps arbitrary: parts) (simp_all add: Let_def)

lemma str_join_snoc:
  "xs \<noteq> [] \<Longrightarrow> str_join sep (xs @ [x]) = str_join sep xs @ sep @ x"
  by (induction sep xs rule: str_join.induct) simp_all

lemma str_join_snoc_Cons:
  "str_join sep (y # ys @ [x]) = str_join sep (y # ys) @ sep @ x"
  using str_join_snoc [of "y # ys" sep x] by simp

lemma get_current_prefix_query: "get_current_prefix M c = (fst (get_current_prefix M c), c)"
  by (simp add: getter_defs py_defs)


lemma process_llm_request_eq:
  assumes "fst (get_current_prefix M c) = Inr prefix"
  shows "process_llm_request M system_text user_text c =
    (Inr (let parts = segments prefix (active_prompts (prompts_manager c))
          in if parts = [] then system_text
             else if system_text = [] then str_join blank_line parts
             else str_join blank_line (parts @ [system_text]), user_text), c)"
proof -
  have "get_current_prefix M c = (Inr prefix, c)"
    using assms get_current_prefix_query [of M c] by simp
  then show ?thesis
    by (simp add: process_llm_request_def and_then_def get_active_prompts_def returns_def
        Let_def collect_contents_eq segments_def str_join_snoc str_join_snoc_Cons)
qed


text \<open>
  C1, as amended. Whenever the prefix of the current preset can be read,
  \<open>process_llm_request\<close> returns the user text unchanged and leaves the controller as
  it is; the new system text joins, with a blank line between segments, the prefix (if
  not empty), then the content of each active prompt whose content is not empty, in the
  order of the active set, then the original system text. If the system text is empty
  the block alone is the result, and if there is no segment the system text is returned
  unchanged.
\<close>

theorem process_llm_request_prepends:
  assumes "fst (get_current_prefix M c) = Inr prefix"
  shows "process_llm_request M system_text user_text c =
    (Inr (let parts = segments prefix (active_prompts (prompts_manager c))
          in if parts = [] then system_text
             else if system_text = [] then str_join blank_line parts
             else str_join blank_line (parts @ [system_text]), user_text), c)"
  using assms by (rule process_llm_request_eq)

text \<open>The scenario of the specification: prefix \<open>SYS\<close>, active set \<open>[A, C]\<close>.\<close>

theorem process_llm_request_prepends_witness:
  "fst (get_current_prefix plain_managers (example_controller ''SYS'' [prompt_A, prompt_C] []))
     = Inr ''SYS'' \<and>
   process_llm_request plain_managers ''orig'' ''u''
     (example_controller ''SYS'' [prompt_A, prompt_C] []) =
   (Inr (''SYS'' @ blank_line @ ''alpha'' @ blank_line @ ''gamma'' @ blank_line @ ''orig'', ''u''),
    example_controller ''SYS'' [prompt_A, prompt_C] [])"
proof -
  have h: "fst (get_current_prefix plain_managers
                  (example_controller ''SYS'' [prompt_A, prompt_C] [])) = Inr ''SYS''"
    by (simp add: getter_defs py_defs example_defs spec_get_prefix_def)
  show ?thesis
    using h process_llm_request_prepends [OF h, of "''orig''" "''u''"]
    by (simp add: segments_def get_content_def example_defs blank_line_def)
qed

text \<open>
  With the active set \<open>[A, B]\<close>, where the content of \<open>B\<close> is empty, the system text
  computed has one segment fewer than the text in the words of the specification.
\<close>

theorem process_llm_request_empty_content_counterexample:
  "fst (process_llm_request plain_managers ''orig'' ''u''
          (example_controller ''SYS'' [prompt_A, prompt_B] []))
     = Inr (''SYS'' @ blank_line @ ''alpha'' @ blank_line @ ''orig'', ''u'') \<and>
   claimed_system_text ''SYS'' [prompt_A, prompt_B] ''orig''
     = ''SYS'' @ blank_line @ ''alpha'' @ blank_line @ blank_line @ ''orig'' \<and>
   fst (process_llm_request plain_managers ''orig'' ''u''
          (example_controller ''SYS'' [prompt_A, prompt_B] []))
     \<noteq> Inr (claimed_system_text ''SYS'' [prompt_A, prompt_B] ''orig'', ''u'')"
  by (simp add: process_llm_request_def getter_defs py_defs example_defs spec_get_prefix_def
      get_content_def claimed_system_text_def blank_line_def)



subsection \<open>Switching presets\<close>

text \<open>
  C8. For every index outside the range of the preset list that the store returns
  (every index, when that list is empty), \<open>switch_preset\<close> returns a failure outcome and
  leaves the whole controller, with its current preset name, its active set and its
  loaded groups, as it was.
\<close>

theorem switch_preset_out_of_range:
  assumes "presets_get_preset_list M (presets_manager c) = Inr preset_list"
    and "\<not> (0 \<le> index \<and> index < int (length preset_list))"
  shows "\<exists>msg. switch_preset M index c = (Inr (False, msg), c)"
  using assms by (auto simp add: switch_preset_def getter_defs py_defs)

theorem switch_preset_out_of_range_witness:
  "presets_get_preset_list plain_managers (presets_manager (example_controller ''SYS'' [prompt_A] []))
     = Inr [''P''] \<and>
   \<not> (0 \<le> (1::int) \<and> (1::int) < int (length [''P''])) \<and>
   (\<exists>msg. switch_preset plain_managers 1 (example_controller ''SYS'' [prompt_A] [])
      = (Inr (False, msg), example_controller ''SYS'' [prompt_A] []))"
proof -
  have h: "presets_get_preset_list plain_managers
             (presets_manager (example_controller ''SYS'' [prompt_A] [])) = Inr [''P'']"
    by (simp add: example_defs spec_get_preset_list_def)
  have r: "\<not> (0 \<le> (1::int) \<and> (1::int) < int (length [''P'']))" by simp
  show ?thesis
    using h r switch_preset_out_of_range [OF h r] by blast
qed

subsection \<open>An empty group\<close>




subsection \<open>Exceptions\<close>





subsection \<open>Activating a group\<close>

text \<open>
  C2. Once the group is found and not empty, \<open>activate_prompt_group\<close> hands the stored
  indices of the group to \<open>activate_prompts\<close> as they are, whatever the managers are:
  its outcome and the controller it leaves are those of that one call on the whole
  list. No index is checked against the prompt list, skipped or reported.
\<close>

theorem activate_prompt_group_passes_indices_unchecked:
  assumes "fst (get_current_prompts M c) = Inr all_prompts"
    and "all_prompts \<noteq> []" and "group_name \<noteq> []"
    and "groups_get_prompt_group M group_name (groups_manager c) = Inr (Some indices)"
    and "indices \<noteq> []"
    and "prompts_activate_prompts M all_prompts indices (prompts_manager c) = (r, a)"
  shows "activate_prompt_group M group_name c =
    (case r of
       Inl e \<Rightarrow> Inr (False, Msg ''internal error while activating group'' [S group_name], [])
     | Inr newly_active \<Rightarrow>
         if newly_active \<noteq> [] then
           Inr (True, Msg ''activated prompts of group''
                        [S group_name, I (int (length newly_active))], newly_active)
         else Inr (True, Msg ''prompts of group are all active already'' [S group_name], []),
     c\<lparr>prompts_manager := a\<rparr>)"
proof -
  have "get_current_prompts M c = (Inr all_prompts, c)"
    using assms(1) get_current_prompts_query [of M c] by simp
  then show ?thesis
    using assms(2-6)
    by (cases r) (simp_all add: activate_prompt_group_def py_defs)
qed

theorem activate_prompt_group_passes_indices_unchecked_witness:
  "fst (get_current_prompts plain_managers (example_controller ''SYS'' [] [(''g'', [0, 5])]))
     = Inr [prompt_A, prompt_B, prompt_C] \<and>
   groups_get_prompt_group plain_managers ''g''
     (groups_manager (example_controller ''SYS'' [] [(''g'', [0, 5])])) = Inr (Some [0, 5]) \<and>
   \<not> in_range [prompt_A, prompt_B, prompt_C] 5 \<and>
   prompts_activate_prompts plain_managers [prompt_A, prompt_B, prompt_C] [0, 5]
     (prompts_manager (example_controller ''SYS'' [] [(''g'', [0, 5])]))
     = (Inl IndexError, \<lparr>active_prompts = [prompt_A], activation_files = []\<rparr>) \<and>
   activate_prompt_group plain_managers ''g'' (example_controller ''SYS'' [] [(''g'', [0, 5])])
     = (Inr (False, Msg ''internal error while activating group'' [S ''g''], []),
        example_controller ''SYS'' [prompt_A] [(''g'', [0, 5])])"
proof -
  let ?c = "example_controller ''SYS'' [] [(''g'', [0, 5])]"
  have h1: "fst (get_current_prompts plain_managers ?c) = Inr [prompt_A, prompt_B, prompt_C]"
    by (simp add: getter_defs py_defs example_defs spec_get_prompts_def)
  have h2: "[prompt_A, prompt_B, prompt_C] \<noteq> []" by simp
  have h3: "''g'' \<noteq> []" by simp
  have h4: "groups_get_prompt_group plain_managers ''g'' (groups_manager ?c) = Inr (Some [0, 5])"
    by (simp add: example_defs spec_get_prompt_group_def)
  have h5: "[0, 5 :: int] \<noteq> []" by simp
  have h6: "prompts_activate_prompts plain_managers [prompt_A, prompt_B, prompt_C] [0, 5]
              (prompts_manager ?c)
            = (Inl IndexError, \<lparr>active_prompts = [prompt_A], activation_files = []\<rparr>)"
    by (simp add: example_defs spec_activate_prompts_def)
  have h7: "\<not> in_range [prompt_A, prompt_B, prompt_C] 5"
    by (simp add: in_range_def)
  show ?thesis
    using h1 h4 h6 h7 activate_prompt_group_passes_indices_unchecked [OF h1 h2 h3 h4 h5 h6]
    by (simp add: example_controller_def)
qed

subsection \<open>Activation is idempotent\<close>








subsection \<open>Deactivating several positions\<close>

text \<open>
  When the valid positions are pairwise distinct, the entries at exactly these
  positions are removed, highest position first, and the other entries keep their
  order.
\<close>

lemma nths_cong_below:
  "(\<And>i. i < length xs \<Longrightarrow> i \<in> A \<longleftrightarrow> i \<in> B) \<Longrightarrow> nths xs A = nths xs B"
  unfolding nths_def
  by (rule arg_cong [where f = "map fst"], rule filter_cong) (auto simp add: set_zip)

lemma nths_remove_position:
  assumes "n < length xs" and "\<And>i. n \<le> i \<Longrightarrow> i \<in> A"
  shows "nths (take n xs @ drop (Suc n) xs) A = nths xs (A - {n})"
proof -
  have l: "nths (take n xs) (A - {n}) = nths (take n xs) A"
    by (rule nths_cong_below) auto
  have r: "nths (drop (Suc n) xs) {j. j + n \<in> A} = drop (Suc n) xs"
    using assms(2) by (simp add: nths_all)
  have r': "nths (drop (Suc n) xs) {j. Suc j + n \<in> A - {n}} = drop (Suc n) xs"
    using assms(2) by (simp add: nths_all)
  have "nths xs (A - {n}) = nths (take n xs @ xs ! n # drop (Suc n) xs) (A - {n})"
    using assms(1) by (simp add: id_take_nth_drop [symmetric])
  also have "\<dots> = nths (take n xs) (A - {n}) @ drop (Suc n) xs"
    using assms(1) r' by (simp add: nths_append nths_Cons min_def)
  finally show ?thesis
    using assms(1) l r by (simp add: nths_append min_def)
qed


lemma with_active_same: "with_active (active_prompts (prompts_manager c)) c = c"
  by (simp add: with_active_def)

lemma with_active_twice: "with_active ys (with_active xs c) = with_active ys c"
  by (simp add: with_active_def)

lemma spec_deactivate_prompt_step:
  assumes "prompts_deactivate_prompt M = spec_deactivate_prompt"
    and "0 \<le> d" and "d < int (length (active_prompts (prompts_manager c)))"
  shows "on_prompts (prompts_deactivate_prompt M d) c =
    (Inr (Some (active_prompts (prompts_manager c) ! nat d)),
     with_active (take (nat d) (active_prompts (prompts_manager c)) @
                  drop (Suc (nat d)) (active_prompts (prompts_manager c))) c)"
  using assms by (simp add: on_prompts_def spec_deactivate_prompt_def with_active_def)

lemma deactivate_each_descending:
  assumes "prompts_deactivate_prompt M = spec_deactivate_prompt"
    and "sorted_wrt (>) ds"
    and "\<forall>d \<in> set ds. 0 \<le> d \<and> d < int (length (active_prompts (prompts_manager c)))"
  shows "deactivate_each M ds acc c =
    (Inr (acc @ map (\<lambda>d. active_prompts (prompts_manager c) ! nat d) ds),
     with_active (nths (active_prompts (prompts_manager c)) {i. int i \<notin> set ds}) c)"
  using assms(2,3)
proof (induction ds arbitrary: acc c)
  case Nil
  then show ?case by (simp add: returns_def with_active_same nths_all)
next
  case (Cons d ds)
  let ?xs = "active_prompts (prompts_manager c)"
  let ?xs' = "take (nat d) ?xs @ drop (Suc (nat d)) ?xs"
  let ?c' = "with_active ?xs' c"
  have d: "0 \<le> d" "d < int (length ?xs)" using Cons.prems(2) by simp_all
  have below: "\<forall>e \<in> set ds. 0 \<le> e \<and> e < d" using Cons.prems by auto
  have act: "active_prompts (prompts_manager ?c') = ?xs'" by (simp add: with_active_def)
  have len: "int (length ?xs') = int (length ?xs) - 1" using d by auto
  have rng: "\<forall>e \<in> set ds. 0 \<le> e \<and> e < int (length (active_prompts (prompts_manager ?c')))"
    unfolding act len using below d by auto
  have srt: "sorted_wrt (>) ds" using Cons.prems(1) by simp
  have same: "map (\<lambda>e. ?xs' ! nat e) ds = map (\<lambda>e. ?xs ! nat e) ds"
  proof (rule map_cong [OF refl])
    fix e assume "e \<in> set ds"
    then have "nat e < nat d" using below by auto
    then show "?xs' ! nat e = ?xs ! nat e" using d by (simp add: nth_append)
  qed
  have "nths ?xs' {i. int i \<notin> set ds} = nths ?xs ({i. int i \<notin> set ds} - {nat d})"
  proof (rule nths_remove_position)
    show "nat d < length ?xs" using d by auto
    fix i assume "nat d \<le> i"
    then have "int i \<notin> set ds" using below d by auto
    then show "i \<in> {i. int i \<notin> set ds}" by simp
  qed
  also have "{i. int i \<notin> set ds} - {nat d} = {i. int i \<notin> set (d # ds)}"
    using d by auto
  finally have rest: "nths ?xs' {i. int i \<notin> set ds} = nths ?xs {i. int i \<notin> set (d # ds)}" .
  show ?case
    using Cons.IH [OF srt rng, of "acc @ [?xs ! nat d]"]
      spec_deactivate_prompt_step [OF assms(1) d]
    by (simp add: and_then_def act same rest with_active_twice)
qed

lemma deactivate_multiple_prompts_distinct:
  assumes "prompts_deactivate_prompt M = spec_deactivate_prompt"
    and "valid = filter (\<lambda>idx. 0 \<le> idx \<and> idx < int (length (active_prompts (prompts_manager c))))
                   indices"
    and "valid \<noteq> []" and "distinct valid"
  shows "\<exists>msg. deactivate_multiple_prompts M indices c =
    (Inr (True, msg, map (\<lambda>idx. active_prompts (prompts_manager c) ! nat idx) (rev (sort valid))),
     with_active (nths (active_prompts (prompts_manager c)) {i. int i \<notin> set valid}) c)"
proof -
  let ?xs = "active_prompts (prompts_manager c)"
  have v: "filter (\<lambda>idx. 0 \<le> idx \<and> idx \<le> int (length ?xs) - 1) indices = valid"
    unfolding assms(2) by (rule filter_cong) auto
  have ne: "indices \<noteq> []" "?xs \<noteq> []" using assms(2,3) by auto
  have "sorted_wrt (<) (sort valid)"
    using assms(4) by (simp add: strict_sorted_iff)
  then have srt: "sorted_wrt (>) (rev (sort valid))"
    by (simp add: sorted_wrt_rev)
  have rng: "\<forall>d \<in> set (rev (sort valid)). 0 \<le> d \<and> d < int (length ?xs)"
    unfolding assms(2) by simp
  have each: "deactivate_each M (rev (sort valid)) [] c =
    (Inr (map (\<lambda>d. ?xs ! nat d) (rev (sort valid))),
     with_active (nths ?xs {i. int i \<notin> set valid}) c)"
    using deactivate_each_descending [OF assms(1) srt rng, of "[]"] by simp
  have "set (sort valid) = set valid" by simp
  then have some: "sort valid \<noteq> []" using assms(3) by (metis set_empty)
  show ?thesis
    using ne v each some assms(3)
    by (simp add: deactivate_multiple_prompts_def get_active_prompts_def py_defs Let_def)
qed

text \<open>Positions 2 and 0 of the active set \<open>[A, B, C]\<close> are removed, highest first.\<close>

lemma deactivate_multiple_prompts_2_0:
  "deactivate_multiple_prompts plain_managers [2, 0]
     (example_controller ''SYS'' [prompt_A, prompt_B, prompt_C] []) =
   (Inr (True, Msg ''deactivated prompts'' [I 2], [prompt_C, prompt_A]),
    example_controller ''SYS'' [prompt_B] [])"
  by (simp add: deactivate_multiple_prompts_def getter_defs py_defs example_defs spec_defs
      Let_def)

text \<open>
  C5. With the position 1 given twice, \<open>deactivate_multiple_prompts\<close> removes the entry
  at position 1 and then the entry that the first removal has shifted into position 1:
  of the active set \<open>[A, B, C]\<close> it removes \<open>B\<close> and \<open>C\<close>.
\<close>

theorem deactivate_multiple_prompts_repeated_index:
  "deactivate_multiple_prompts plain_managers [1, 1]
     (example_controller ''SYS'' [prompt_A, prompt_B, prompt_C] []) =
   (Inr (True, Msg ''deactivated prompts'' [I 2], [prompt_B, prompt_C]),
    example_controller ''SYS'' [prompt_A] [])"
  by (simp add: deactivate_multiple_prompts_def getter_defs py_defs example_defs spec_defs
      Let_def)

subsection \<open>Deactivating a group\<close>

text \<open>
  C7, as amended. For a group that exists and is not empty, with a preset current,
  \<open>deactivate_prompt_group\<close> resolves the stored indices against the current full
  prompt list and skips every index outside it. If no index remains the operation
  returns a failure outcome and changes nothing; otherwise it succeeds, removes from the
  active set the entries equal to a prompt at a remaining index, and returns them.
\<close>

theorem deactivate_prompt_group_skips_stale:
  assumes "current_preset_name c \<noteq> []" and "group_name \<noteq> []"
    and "groups_get_prompt_group M group_name (groups_manager c) = Inr (Some indices)"
    and "indices \<noteq> []"
    and "fst (get_current_prompts M c) = Inr all_prompts"
    and "prompts_deactivate_prompts_by_reference M = spec_deactivate_prompts_by_reference"
    and "targets = map (\<lambda>idx. all_prompts ! nat idx) (filter (in_range all_prompts) indices)"
  shows "if targets = [] then
           (\<exists>msg. deactivate_prompt_group M group_name c = (Inr (False, msg, []), c))
         else
           (\<exists>msg. deactivate_prompt_group M group_name c =
              (Inr (True, msg, filter (\<lambda>p. p \<in> set targets) (active_prompts (prompts_manager c))),
               with_active (filter (\<lambda>p. p \<notin> set targets) (active_prompts (prompts_manager c))) c))"
proof -
  have q: "get_current_prompts M c = (Inr all_prompts, c)"
    using assms(5) get_current_prompts_query [of M c] by simp
  have t: "map (\<lambda>idx. all_prompts ! nat idx)
             (filter (\<lambda>idx. 0 \<le> idx \<and> idx \<le> int (length all_prompts) - 1) indices) = targets"
    unfolding assms(7) in_range_def
    by (rule arg_cong [where f = "map (\<lambda>idx. all_prompts ! nat idx)"], rule filter_cong) auto
  have e: "all_prompts = [] \<Longrightarrow> targets = []"
    unfolding assms(7) by (simp add: in_range_def)
  show ?thesis
    using assms(1-4,6) q t e
    by (auto simp add: deactivate_prompt_group_def get_current_preset_name_def py_defs Let_def
        spec_deactivate_prompts_by_reference_def with_active_def)
qed

theorem deactivate_prompt_group_skips_stale_witness:
  "groups_get_prompt_group plain_managers ''g''
     (groups_manager (example_controller ''SYS'' [prompt_C, prompt_A, prompt_B] [(''g'', [0, 5, 2])]))
     = Inr (Some [0, 5, 2]) \<and>
   map (\<lambda>idx. [prompt_A, prompt_B, prompt_C] ! nat idx)
     (filter (in_range [prompt_A, prompt_B, prompt_C]) [0, 5, 2]) = [prompt_A, prompt_C] \<and>
   deactivate_prompt_group plain_managers ''g''
     (example_controller ''SYS'' [prompt_C, prompt_A, prompt_B] [(''g'', [0, 5, 2])]) =
   (Inr (True, Msg ''deactivated prompts of group'' [S ''g'', I 2], [prompt_C, prompt_A]),
    example_controller ''SYS'' [prompt_B] [(''g'', [0, 5, 2])])"
proof -
  let ?c = "example_controller ''SYS'' [prompt_C, prompt_A, prompt_B] [(''g'', [0, 5, 2])]"
  have h1: "current_preset_name ?c \<noteq> []" by (simp add: example_defs)
  have h2: "''g'' \<noteq> []" by simp
  have h3: "groups_get_prompt_group plain_managers ''g'' (groups_manager ?c) = Inr (Some [0, 5, 2])"
    by (simp add: example_defs spec_defs)
  have h4: "[0, 5, 2 :: int] \<noteq> []" by simp
  have h5: "fst (get_current_prompts plain_managers ?c) = Inr [prompt_A, prompt_B, prompt_C]"
    by (simp add: getter_defs py_defs example_defs spec_defs)
  have h6: "prompts_deactivate_prompts_by_reference plain_managers
            = spec_deactivate_prompts_by_reference"
    by (simp add: example_defs)
  have h7: "[prompt_A, prompt_C] = map (\<lambda>idx. [prompt_A, prompt_B, prompt_C] ! nat idx)
     (filter (in_range [prompt_A, prompt_B, prompt_C]) [0, 5, 2])"
    by (simp add: in_range_def)
  have d: "deactivate_prompt_group plain_managers ''g'' ?c =
   (Inr (True, Msg ''deactivated prompts of group'' [S ''g'', I 2], [prompt_C, prompt_A]),
    example_controller ''SYS'' [prompt_B] [(''g'', [0, 5, 2])])"
    by (simp add: deactivate_prompt_group_def getter_defs py_defs example_defs spec_defs Let_def)
  show ?thesis
    using h3 h7 [symmetric] d deactivate_prompt_group_skips_stale [OF h1 h2 h3 h4 h5 h6 h7]
    by simp
qed

text \<open>A group whose only index is stale: the operation fails.\<close>

theorem deactivate_prompt_group_all_stale_counterexample:
  "deactivate_prompt_group plain_managers ''g''
     (example_controller ''SYS'' [prompt_A] [(''g'', [5])]) =
   (Inr (False, Msg ''indices of group are invalid'' [S ''g''], []),
    example_controller ''SYS'' [prompt_A] [(''g'', [5])])"
  by (simp add: deactivate_prompt_group_def getter_defs py_defs example_defs spec_defs Let_def)

subsection \<open>Refreshing\<close>

text \<open>
  C6. When the extraction succeeds, \<open>refresh_prompts\<close> reloads the store, clears the
  active set, sets the current preset name to the first preset name (to the empty string
  if there is none), reloads the groups of that preset, and returns a success outcome
  whose statistics are the number of loaded presets and the total number of their
  prompts. When the extraction fails, it returns a failure outcome with empty statistics
  and leaves the current preset name and the active set unchanged.
\<close>

theorem refresh_prompts_outcome:
  assumes "extract (output_store (presets_manager c)) = (ok, st)"
    and "r = refresh_prompts (spec_managers extract write_ok) c"
  shows "if ok then
           (\<exists>msg. fst r = Inr (True, msg,
              [(''preset_count'', int (length (presets (presets_manager (snd r))))),
               (''prompt_count'',
                  sum_list (map (\<lambda>(n, ps). int (length ps)) (presets (presets_manager (snd r)))))]))
           \<and> presets (presets_manager (snd r)) = map (\<lambda>(n, ps, pre). (n, ps)) st
           \<and> prefixes (presets_manager (snd r)) = map (\<lambda>(n, ps, pre). (n, pre)) st
           \<and> active_prompts (prompts_manager (snd r)) = []
           \<and> current_preset_name (snd r) = (case st of [] \<Rightarrow> [] | (n, ps, pre) # rest \<Rightarrow> n)
           \<and> prompt_groups (groups_manager (snd r)) =
               (case st of
                  [] \<Rightarrow> prompt_groups (groups_manager c)
                | (n, ps, pre) # rest \<Rightarrow>
                    (case map_of (group_files (groups_manager c)) n of
                       None \<Rightarrow> [] | Some g \<Rightarrow> g))
         else
           (\<exists>msg. fst r = Inr (False, msg, []))
           \<and> current_preset_name (snd r) = current_preset_name c
           \<and> active_prompts (prompts_manager (snd r)) = active_prompts (prompts_manager c)"
proof (cases ok)
  case False
  then show ?thesis
    using assms
    by (simp add: refresh_prompts_def py_defs spec_managers_def spec_defs)
next
  case True
  show ?thesis
  proof (cases st)
    case Nil
    then show ?thesis
      using assms True
      by (simp add: refresh_prompts_def getter_defs py_defs spec_managers_def spec_defs
          attribute_defs Let_def)
  next
    case (Cons p rest)
    then show ?thesis
      using assms True
      by (cases p)
         (simp add: refresh_prompts_def getter_defs py_defs spec_managers_def spec_defs
          attribute_defs Let_def comp_def case_prod_unfold)
  qed
qed

theorem refresh_prompts_outcome_witness:
  "fst (refresh_prompts reextracting_managers
          (example_controller ''SYS'' [prompt_A] [(''g'', [0])]))
     = Inr (True, Msg ''reloaded presets and prompts'' [I 2, I 3],
            [(''preset_count'', 2), (''prompt_count'', 3)]) \<and>
   current_preset_name (snd (refresh_prompts reextracting_managers
          (example_controller ''SYS'' [prompt_A] [(''g'', [0])]))) = ''Q'' \<and>
   active_prompts (prompts_manager (snd (refresh_prompts reextracting_managers
          (example_controller ''SYS'' [prompt_A] [(''g'', [0])])))) = [] \<and>
   prompt_groups (groups_manager (snd (refresh_prompts reextracting_managers
          (example_controller ''SYS'' [prompt_A] [(''g'', [0])])))) = [] \<and>
   refresh_prompts broken_extraction_managers
          (example_controller ''SYS'' [prompt_A] [(''g'', [0])])
     = (Inr (False, Msg ''extraction failed, see the log'' [], []),
        example_controller ''SYS'' [prompt_A] [(''g'', [0])])"
proof -
  let ?c = "example_controller ''SYS'' [prompt_A] [(''g'', [0])]"
  have h: "(\<lambda>st. (True, two_presets)) (output_store (presets_manager ?c)) = (True, two_presets)"
    by simp
  have g: "(\<lambda>st. (False, st)) (output_store (presets_manager ?c))
           = (False, output_store (presets_manager ?c))"
    by simp
  have e: "refresh_prompts broken_extraction_managers ?c
     = (Inr (False, Msg ''extraction failed, see the log'' [], []), ?c)"
    by (simp add: refresh_prompts_def py_defs broken_extraction_managers_def spec_managers_def
        spec_defs example_controller_def)
  have s: "fst (refresh_prompts reextracting_managers ?c)
     = Inr (True, Msg ''reloaded presets and prompts'' [I 2, I 3],
            [(''preset_count'', 2), (''prompt_count'', 3)])"
    by (simp add: refresh_prompts_def getter_defs py_defs reextracting_managers_def
        spec_managers_def spec_defs attribute_defs two_presets_def example_controller_def Let_def)
  show ?thesis
    using s e
      refresh_prompts_outcome [of "\<lambda>st. (True, two_presets)" "?c" True two_presets _
        "\<lambda>preset_name. True", OF h refl]
      refresh_prompts_outcome [of "\<lambda>st. (False, st)" "?c" False
        "output_store (presets_manager ?c)" _ "\<lambda>preset_name. True", OF g refl]
    by (simp add: reextracting_managers_def broken_extraction_managers_def two_presets_def
        example_controller_def)
qed

end
